theory Spec2Isabelle
  imports Complex_Main "HOL-Library.Word"
begin

section \<open>The session manager of llama-kotlin-android\<close>

text \<open>
  The development embeds \<^verbatim>\<open>app/src/main/cpp/llama_context_wrapper.cpp\<close>, the class
  \<^verbatim>\<open>LlamaContextWrapper\<close>. The file has two compile-time variants, selected by the
  macro \<^verbatim>\<open>LLAMA_AVAILABLE\<close>. The main part of the theory is the variant with the
  inference engine compiled in (the \<^verbatim>\<open>#if LLAMA_AVAILABLE\<close> branches); the variant
  without it (the \<^verbatim>\<open>#else\<close> branches) is embedded separately, in definitions whose
  names end in \<open>_stub\<close>.

  The engine (llama.cpp) is not part of the repository. It is a parameter of every
  definition: a record of the functions the wrapper calls. Handles are modelled by the
  values they stand for, and a call that mutates the object behind a handle returns the new
  value. Logging calls have no effect on the state and are left out. The mutex is left out:
  the theory describes one thread of control.
\<close>

subsection \<open>Values\<close>

text \<open>
  A C++ \<^verbatim>\<open>float\<close> is used by the code only in comparisons with constants. It is modelled by
  a real number, an infinity or NaN, with the comparisons of IEEE 754: every ordered
  comparison with NaN is false, and \<^verbatim>\<open>!=\<close> with NaN is true.
\<close>

datatype cfloat = Finite real | PosInf | NegInf | NaN

fun float_lt :: "cfloat \<Rightarrow> cfloat \<Rightarrow> bool" where
  "float_lt NaN b = False"
| "float_lt a NaN = False"
| "float_lt (Finite a) (Finite b) = (a < b)"
| "float_lt (Finite a) PosInf = True"
| "float_lt NegInf (Finite b) = True"
| "float_lt NegInf PosInf = True"
| "float_lt a b = False"

definition float_gt :: "cfloat \<Rightarrow> cfloat \<Rightarrow> bool" where
  "float_gt a b = float_lt b a"

definition float_ne :: "cfloat \<Rightarrow> cfloat \<Rightarrow> bool" where
  "float_ne a b = (if a = NaN \<or> b = NaN then True else a \<noteq> b)"

text \<open>
  \<^verbatim>\<open>llama_token\<close> is \<^verbatim>\<open>int32_t\<close>. A C++ \<^verbatim>\<open>int\<close> is modelled by the integer it holds: the
  code compares such values and passes them on, and the only arithmetic on them is the
  increment of the two loop counters and \<^verbatim>\<open>n_ctx - 4\<close>. Conversions to \<^verbatim>\<open>uint32_t\<close> are
  written out with \<^term>\<open>word_of_int\<close>, conversions from it with \<^term>\<open>sint\<close>.
\<close>

type_synonym llama_token = int

text \<open>
  \<^verbatim>\<open>LlamaConfig\<close> is declared in \<^verbatim>\<open>llama_context_wrapper.h\<close>; the fields are the ones
  the source file reads, with the types its uses of them imply.
\<close>

record LlamaConfig =
  contextSize :: int
  batchSize :: int
  threads :: int
  threadsBatch :: int
  gpuLayers :: int
  useMmap :: bool
  useMlock :: bool
  maxTokens :: int
  temperature :: cfloat
  topK :: int
  topP :: cfloat
  repeatPenalty :: cfloat
  seed :: int

record llama_model_params =
  n_gpu_layers :: int
  use_mmap :: bool
  use_mlock :: bool

record llama_context_params =
  n_ctx :: "32 word"
  n_batch :: "32 word"
  n_threads :: int
  n_threads_batch :: int

text \<open>
  The stages of a sampler chain, named after the engine functions that build them, with
  the arguments the wrapper passes.
\<close>

datatype llama_sampler =
    llama_sampler_init_penalties int cfloat cfloat cfloat
  | llama_sampler_init_top_k int
  | llama_sampler_init_top_p cfloat nat
  | llama_sampler_init_temp cfloat
  | llama_sampler_init_dist "32 word"

text \<open>
  A batch is five parallel arrays of \<^verbatim>\<open>n_tokens_alloc\<close> elements each. The wrapper
  always writes the five arrays at one index, so the model keeps one list of slots; its
  length is the allocated capacity.
\<close>

record batch_slot =
  token :: llama_token
  pos :: int
  n_seq_id :: int
  seq_id :: "int list"
  logits :: bool

record llama_batch =
  n_tokens :: int
  slots :: "batch_slot list"

text \<open>
  The engine. \<open>'m\<close> is a loaded model (with its vocabulary), \<open>'c\<close> a context (with its
  KV cache), \<open>'s\<close> a sampler chain (with the state of its stages).
  \<^item> \<open>llama_tokenize m text text_len n_tokens_max add_special parse_special\<close> returns
    the engine's result (an \<^verbatim>\<open>int32_t\<close>) and the token ids it wrote to the caller's
    buffer; \<open>text_len\<close> and \<open>n_tokens_max\<close> are the values of the two \<^verbatim>\<open>int32_t\<close>
    arguments;
  \<^item> \<open>llama_token_to_piece m token length\<close> returns the engine's result and the
    bytes it wrote to the caller's buffer;
  \<^item> \<open>llama_decode\<close> returns the engine's result and the context after the call;
  \<^item> \<open>llama_sampler_sample\<close> (always called with index \<open>-1\<close>) returns the token and
    the sampler chain after the call;
  \<^item> \<open>std_time\<close> is what \<^verbatim>\<open>std::time(nullptr)\<close> returns.
\<close>

record ('m, 'c, 's) engine =
  llama_model_load_from_file :: "string \<Rightarrow> llama_model_params \<Rightarrow> 'm option"
  llama_init_from_model :: "'m \<Rightarrow> llama_context_params \<Rightarrow> 'c option"
  llama_n_ctx :: "'c \<Rightarrow> 32 word"
  llama_tokenize ::
    "'m \<Rightarrow> string \<Rightarrow> int \<Rightarrow> int \<Rightarrow> bool \<Rightarrow> bool \<Rightarrow> int \<times> llama_token list"
  llama_token_to_piece :: "'m \<Rightarrow> llama_token \<Rightarrow> nat \<Rightarrow> int \<times> string"
  llama_vocab_is_eog :: "'m \<Rightarrow> llama_token \<Rightarrow> bool"
  llama_decode :: "'c \<Rightarrow> llama_batch \<Rightarrow> int \<times> 'c"
  llama_sampler_chain_init :: "'s"
  llama_sampler_chain_add :: "'s \<Rightarrow> llama_sampler \<Rightarrow> 's"
  llama_sampler_sample :: "'s \<Rightarrow> 'c \<Rightarrow> llama_token \<times> 's"
  std_time :: int

subsection \<open>The session\<close>

text \<open>
  The members of the class. Isabelle reserves names that end in an underscore, so the
  member \<^verbatim>\<open>model_\<close> is written \<open>m_model\<close>, and so on.

  The calls that release a handle, with the handle released. The session records them in
  the order in which they are made (the field \<open>released\<close>, which the C++ class does not
  have: it is how the model observes the calls).
\<close>

datatype ('m, 'c, 's) release =
    llama_sampler_free 's
  | llama_free 'c
  | llama_model_free 'm

record ('m, 'c, 's) LlamaContextWrapper =
  m_model :: "'m option"
  m_context :: "'c option"
  m_sampler :: "'s option"
  m_currentConfig :: LlamaConfig
  m_lastError :: string
  m_isGenerating :: bool
  m_shouldCancel :: bool
  released :: "('m, 'c, 's) release list"

text \<open>
  What ends a call other than by a return: a write past the end of a batch array; a call
  of the engine on a null handle; \<^verbatim>\<open>std::length_error\<close>, which the constructor and
  \<^verbatim>\<open>resize\<close> of \<^verbatim>\<open>std::vector\<close> throw for a size above the maximum; and the overflow of
  a signed negation, which is undefined behaviour.
\<close>

datatype fault = BatchOverflow | NullHandle | LengthError | SignedOverflow

definition setError ::
  "string \<Rightarrow> ('m, 'c, 's) LlamaContextWrapper \<Rightarrow> ('m, 'c, 's) LlamaContextWrapper" where
  "setError err s = s\<lparr>m_lastError := err\<rparr>"

definition clearError ::
  "('m, 'c, 's) LlamaContextWrapper \<Rightarrow> ('m, 'c, 's) LlamaContextWrapper" where
  "clearError s = s\<lparr>m_lastError := []\<rparr>"


definition isGenerating :: "('m, 'c, 's) LlamaContextWrapper \<Rightarrow> bool" where
  "isGenerating s = m_isGenerating s"

definition cancelGeneration ::
  "('m, 'c, 's) LlamaContextWrapper \<Rightarrow> ('m, 'c, 's) LlamaContextWrapper" where
  "cancelGeneration s = s\<lparr>m_shouldCancel := True\<rparr>"

definition isModelLoaded :: "('m, 'c, 's) LlamaContextWrapper \<Rightarrow> bool" where
  "isModelLoaded s = (m_model s \<noteq> None \<and> m_context s \<noteq> None)"

text \<open>\<^verbatim>\<open>unloadModel\<close>: three guarded releases, one after the other.\<close>

definition free_sampler ::
  "('m, 'c, 's) LlamaContextWrapper \<Rightarrow> ('m, 'c, 's) LlamaContextWrapper" where
  "free_sampler s =
     (case m_sampler s of
        None \<Rightarrow> s
      | Some smpl \<Rightarrow> s\<lparr>released := released s @ [llama_sampler_free smpl], m_sampler := None\<rparr>)"

definition free_context ::
  "('m, 'c, 's) LlamaContextWrapper \<Rightarrow> ('m, 'c, 's) LlamaContextWrapper" where
  "free_context s =
     (case m_context s of
        None \<Rightarrow> s
      | Some ctx \<Rightarrow> s\<lparr>released := released s @ [llama_free ctx], m_context := None\<rparr>)"

definition free_model ::
  "('m, 'c, 's) LlamaContextWrapper \<Rightarrow> ('m, 'c, 's) LlamaContextWrapper" where
  "free_model s =
     (case m_model s of
        None \<Rightarrow> s
      | Some m \<Rightarrow> s\<lparr>released := released s @ [llama_model_free m], m_model := None\<rparr>)"

definition unloadModel ::
  "('m, 'c, 's) LlamaContextWrapper \<Rightarrow> ('m, 'c, 's) LlamaContextWrapper" where
  "unloadModel s = free_model (free_context (free_sampler s))"

text \<open>
  \<^verbatim>\<open>setupSampler\<close>: the old chain is released (the member keeps pointing to it until the
  new chain is assigned), then the new chain is built stage by stage.
\<close>

definition sampler_seed :: "('m, 'c, 's) engine \<Rightarrow> LlamaConfig \<Rightarrow> 32 word" where
  "sampler_seed e config =
     (if seed config \<ge> 0 then word_of_int (seed config) else word_of_int (std_time e))"

definition setupSampler ::
  "('m, 'c, 's) engine \<Rightarrow> LlamaConfig \<Rightarrow> ('m, 'c, 's) LlamaContextWrapper
    \<Rightarrow> ('m, 'c, 's) LlamaContextWrapper" where
  "setupSampler e config s =
     (let s1 = (case m_sampler s of
                  None \<Rightarrow> s
                | Some old \<Rightarrow> s\<lparr>released := released s @ [llama_sampler_free old]\<rparr>);
          c0 = llama_sampler_chain_init e;
          c1 = (if float_ne (repeatPenalty config) (Finite 1)
                then llama_sampler_chain_add e c0
                       (llama_sampler_init_penalties 64 (repeatPenalty config) (Finite 0) (Finite 0))
                else c0);
          c2 = (if topK config > 0
                then llama_sampler_chain_add e c1 (llama_sampler_init_top_k (topK config))
                else c1);
          c3 = (if float_lt (topP config) (Finite 1)
                then llama_sampler_chain_add e c2 (llama_sampler_init_top_p (topP config) 1)
                else c2);
          c4 = (if float_gt (temperature config) (Finite 0)
                then llama_sampler_chain_add e c3 (llama_sampler_init_temp (temperature config))
                else c3);
          c5 = llama_sampler_chain_add e c4 (llama_sampler_init_dist (sampler_seed e config))
      in s1\<lparr>m_sampler := Some c5\<rparr>)"

text \<open>
  \<^verbatim>\<open>loadModel\<close> returns its boolean result and the session after the call. The two
  parameter records are the engine's defaults with the fields the code assigns; only
  the assigned fields are modelled.
\<close>

definition modelParams_of :: "LlamaConfig \<Rightarrow> llama_model_params" where
  "modelParams_of config =
     \<lparr>n_gpu_layers = gpuLayers config, use_mmap = useMmap config, use_mlock = useMlock config\<rparr>"

definition ctxParams_of :: "LlamaConfig \<Rightarrow> llama_context_params" where
  "ctxParams_of config =
     \<lparr>n_ctx = word_of_int (contextSize config), n_batch = word_of_int (batchSize config),
      n_threads = threads config, n_threads_batch = threadsBatch config\<rparr>"

text \<open>The first two steps: the error slot is cleared and a model still loaded is unloaded.\<close>

definition before_load ::
  "('m, 'c, 's) LlamaContextWrapper \<Rightarrow> ('m, 'c, 's) LlamaContextWrapper" where
  "before_load s0 = (let s1 = clearError s0 in if m_model s1 \<noteq> None then unloadModel s1 else s1)"

definition loadModel ::
  "('m, 'c, 's) engine \<Rightarrow> string \<Rightarrow> LlamaConfig \<Rightarrow> ('m, 'c, 's) LlamaContextWrapper
    \<Rightarrow> bool \<times> ('m, 'c, 's) LlamaContextWrapper" where
  "loadModel e modelPath config s0 =
     (let s2 = before_load s0
      in case llama_model_load_from_file e modelPath (modelParams_of config) of
           None \<Rightarrow>
             (False, setError (''Failed to load model from: '' @ modelPath) (s2\<lparr>m_model := None\<rparr>))
         | Some m \<Rightarrow>
             (let s3 = s2\<lparr>m_model := Some m\<rparr>
              in case llama_init_from_model e m (ctxParams_of config) of
                   None \<Rightarrow>
                     (let s4 = setError ''Failed to create llama context'' (s3\<lparr>m_context := None\<rparr>)
                      in (False, s4\<lparr>released := released s4 @ [llama_model_free m],
                                     m_model := None\<rparr>))
                 | Some ctx \<Rightarrow>
                     (True, (setupSampler e config (s3\<lparr>m_context := Some ctx\<rparr>))
                              \<lparr>m_currentConfig := config\<rparr>)))"

subsection \<open>The tokenizer adapter\<close>

text \<open>
  \<^verbatim>\<open>std::vector::resize\<close> cuts the vector or pads it with zeros. \<open>store\<close> is the effect of
  an engine call that writes \<open>w\<close> to the start of the caller's buffer: the buffer keeps its
  length, whatever the engine returns.
\<close>

definition resize :: "llama_token list \<Rightarrow> nat \<Rightarrow> llama_token list" where
  "resize xs n = take n xs @ replicate (n - length xs) 0"

definition store :: "'a list \<Rightarrow> 'a list \<Rightarrow> 'a list" where
  "store buf w = take (length buf) w @ drop (length w) buf"

text \<open>
  The conversion of a \<^verbatim>\<open>size_t\<close> value to \<^verbatim>\<open>int\<close> (32 bits): the value modulo \<open>2^32\<close>,
  read as a signed number.
\<close>

definition to_int32 :: "nat \<Rightarrow> int" where
  "to_int32 n = sint (word_of_nat n :: 32 word)"

text \<open>
  \<^verbatim>\<open>tokenize\<close> and \<^verbatim>\<open>detokenize\<close> read the vocabulary of \<^verbatim>\<open>model_\<close>; the model passes it
  as the argument \<open>vocab\<close>.

  In \<^verbatim>\<open>tokenize\<close>, \<^verbatim>\<open>text.length() / 4 + 16\<close> is computed in \<^verbatim>\<open>size_t\<close>, where it cannot
  overflow, and converted to \<^verbatim>\<open>int\<close>. A negative \<^verbatim>\<open>int\<close> converts to a vector size above
  the maximum, and the constructor throws. The two sizes the tokenizer is called with are
  \<^verbatim>\<open>size_t\<close> values converted to \<^verbatim>\<open>int32_t\<close>. \<^verbatim>\<open>-n_tokens\<close> overflows when the
  result does not fit an \<^verbatim>\<open>int\<close>, that is for \<^verbatim>\<open>INT32_MIN\<close>. (\<^verbatim>\<open>size_t\<close> is taken to
  have 64 bits, and memory for a vector of a valid size to be there.) The result is the
  fault, or the vector returned.
\<close>

definition tokenize ::
  "('m, 'c, 's) engine \<Rightarrow> 'm \<Rightarrow> string \<Rightarrow> bool \<Rightarrow> fault + llama_token list" where
  "tokenize e vocab text addBos =
     (let n_tokens_estimate = to_int32 (length text div 4 + 16) in
      if n_tokens_estimate < 0 then Inl LengthError
      else
        (let tokens0 = replicate (nat n_tokens_estimate) 0;
             (n1, w1) = llama_tokenize e vocab text (to_int32 (length text))
                          (to_int32 (length tokens0)) addBos True;
             tokens1 = store tokens0 w1
         in if n1 < 0 then
              (if 2147483647 < - n1 then Inl SignedOverflow
               else
                 (let tokens2 = resize tokens1 (nat (- n1));
                      (n2, w2) = llama_tokenize e vocab text (to_int32 (length text))
                                   (to_int32 (length tokens2)) addBos True;
                      tokens3 = store tokens2 w2
                  in if n2 < 0 then Inr [] else Inr (resize tokens3 (nat n2))))
            else Inr (resize tokens1 (nat n1))))"

text \<open>
  \<^verbatim>\<open>buf[n] = '\0'; result += buf\<close> appends the bytes of the buffer up to the first zero
  byte.
\<close>

fun detokenize :: "('m, 'c, 's) engine \<Rightarrow> 'm \<Rightarrow> llama_token list \<Rightarrow> string" where
  "detokenize e vocab [] = []"
| "detokenize e vocab (t # ts) =
     (case llama_token_to_piece e vocab t 255 of
        (n, buf) \<Rightarrow>
          if n < 0 then detokenize e vocab ts
          else takeWhile (\<lambda>c. c \<noteq> CHR 0x00) (take (nat n) buf) @ detokenize e vocab ts)"

subsection \<open>Batches\<close>

text \<open>
  \<^verbatim>\<open>llama_batch_init(n_tokens_alloc, 0, 1)\<close> allocates arrays of \<^verbatim>\<open>n_tokens_alloc\<close>
  elements (none when the number is not positive), and one sequence id per slot. A write
  past the end of the arrays is the fault \<^term>\<open>BatchOverflow\<close>.
\<close>

definition llama_batch_init :: "int \<Rightarrow> llama_batch" where
  "llama_batch_init n_tokens_alloc =
     \<lparr>n_tokens = 0,
      slots = replicate (nat n_tokens_alloc)
                \<lparr>token = 0, pos = 0, n_seq_id = 0, seq_id = [0], logits = False\<rparr>\<rparr>"

definition batch_write ::
  "llama_batch \<Rightarrow> int \<Rightarrow> (batch_slot \<Rightarrow> batch_slot) \<Rightarrow> fault + llama_batch" where
  "batch_write batch i f =
     (if 0 \<le> i \<and> nat i < length (slots batch)
      then Inr (batch\<lparr>slots := (slots batch)[nat i := f (slots batch ! nat i)]\<rparr>)
      else Inl BatchOverflow)"

text \<open>The loop over the prompt tokens; \<open>i\<close> is the loop variable.\<close>

fun add_prompt_tokens :: "llama_batch \<Rightarrow> nat \<Rightarrow> llama_token list \<Rightarrow> fault + llama_batch" where
  "add_prompt_tokens batch i [] = Inr batch"
| "add_prompt_tokens batch i (t # ts) =
     (case batch_write batch (n_tokens batch)
             (\<lambda>sl. sl\<lparr>token := t, pos := int i, n_seq_id := 1,
                       seq_id := (seq_id sl)[0 := 0], logits := False\<rparr>) of
        Inl f \<Rightarrow> Inl f
      | Inr b \<Rightarrow> add_prompt_tokens (b\<lparr>n_tokens := n_tokens b + 1\<rparr>) (Suc i) ts)"

definition prompt_batch :: "LlamaConfig \<Rightarrow> llama_token list \<Rightarrow> fault + llama_batch" where
  "prompt_batch cfg promptTokens =
     (case add_prompt_tokens ((llama_batch_init (batchSize cfg))\<lparr>n_tokens := 0\<rparr>) 0 promptTokens of
        Inl f \<Rightarrow> Inl f
      | Inr batch \<Rightarrow>
          if n_tokens batch > 0
          then batch_write batch (n_tokens batch - 1) (\<lambda>sl. sl\<lparr>logits := True\<rparr>)
          else Inr batch)"

definition next_batch :: "llama_batch \<Rightarrow> llama_token \<Rightarrow> int \<Rightarrow> fault + llama_batch" where
  "next_batch batch newToken n_cur =
     (case batch_write (batch\<lparr>n_tokens := 0\<rparr>) 0
             (\<lambda>sl. sl\<lparr>token := newToken, pos := n_cur, n_seq_id := 1,
                       seq_id := (seq_id sl)[0 := 0], logits := True\<rparr>) of
        Inl f \<Rightarrow> Inl f
      | Inr b \<Rightarrow> Inr (b\<lparr>n_tokens := 1\<rparr>))"

subsection \<open>Generation\<close>

text \<open>
  The callback is a function of the caller: it receives the text of a token and changes
  state of the caller's (\<open>'u\<close>). Of the operations that change the session it may call
  \<^verbatim>\<open>cancelGeneration\<close>, which takes no lock; the boolean it returns says whether it did.
  A callback that calls another of them is outside the model. The functions return a
  fault, or the caller's state and the session after the call.
\<close>

datatype ('u, 'w) iteration = Fault fault | Break 'u 'w | Continue llama_batch 'u 'w

text \<open>
  One run of the body of the \<^verbatim>\<open>while\<close> loop: it ends in a fault, leaves the loop
  (\<^verbatim>\<open>break\<close>), or reaches the end of the body with a new batch.
\<close>

definition loop_body ::
  "('m, 'c, 's) engine \<Rightarrow> 'm \<Rightarrow> (string \<Rightarrow> 'u \<Rightarrow> 'u \<times> bool) \<Rightarrow> llama_batch \<Rightarrow> int \<Rightarrow> 'u
    \<Rightarrow> ('m, 'c, 's) LlamaContextWrapper \<Rightarrow> ('u, ('m, 'c, 's) LlamaContextWrapper) iteration" where
  "loop_body e vocab callback batch n_cur u s =
     (case (m_sampler s, m_context s) of
        (Some smpl, Some ctx) \<Rightarrow>
          (case llama_sampler_sample e smpl ctx of
             (newToken, smpl') \<Rightarrow>
               let s1 = s\<lparr>m_sampler := Some smpl'\<rparr> in
               if llama_vocab_is_eog e vocab newToken then Break u s1
               else
                 (case callback (detokenize e vocab [newToken]) u of
                    (u', cancel) \<Rightarrow>
                      let s2 = (if cancel then cancelGeneration s1 else s1) in
                      (case next_batch batch newToken n_cur of
                         Inl f \<Rightarrow> Fault f
                       | Inr batch' \<Rightarrow>
                           (case llama_decode e ctx batch' of
                              (rc, ctx') \<Rightarrow>
                                let s3 = s2\<lparr>m_context := Some ctx'\<rparr> in
                                if rc \<noteq> 0 then Break u' (setError ''Failed to decode token'' s3)
                                else Continue batch' u' s3))))
      | _ \<Rightarrow> Fault NullHandle)"

function generation_loop ::
  "('m, 'c, 's) engine \<Rightarrow> LlamaConfig \<Rightarrow> 'm \<Rightarrow> (string \<Rightarrow> 'u \<Rightarrow> 'u \<times> bool) \<Rightarrow> llama_batch
    \<Rightarrow> int \<Rightarrow> int \<Rightarrow> 'u \<Rightarrow> ('m, 'c, 's) LlamaContextWrapper
    \<Rightarrow> fault + ('u \<times> ('m, 'c, 's) LlamaContextWrapper)" where
  "generation_loop e cfg vocab callback batch n_cur n_generated u s =
     (if n_generated < maxTokens cfg \<and> \<not> m_shouldCancel s then
        (case loop_body e vocab callback batch n_cur u s of
           Fault f \<Rightarrow> Inl f
         | Break u' s' \<Rightarrow> Inr (u', s')
         | Continue batch' u' s' \<Rightarrow>
             generation_loop e cfg vocab callback batch' (n_cur + 1) (n_generated + 1) u' s')
      else Inr (u, s))"
  by pat_completeness auto
termination
  by (relation "measure (\<lambda>(e, cfg, vocab, callback, batch, n_cur, n_generated, u, s).
                   nat (maxTokens cfg - n_generated))") auto

declare generation_loop.simps [simp del]




text \<open>
  \<^verbatim>\<open>generateStream\<close>, in the order of the source: the entry guard; the configuration
  in effect (\<open>effective_config\<close>); the flags and, with an override, the new sampler chain
  (\<open>begin_generation\<close>); tokenization; the capacity check; the prompt batch and its
  decoding; the loop. \<open>abort_generation\<close> is what the three early exits after the guard
  do. \<^verbatim>\<open>llama_batch_free\<close> releases memory that only the call itself used and has no
  counterpart in the model.
\<close>

definition effective_config ::
  "LlamaConfig option \<Rightarrow> ('m, 'c, 's) LlamaContextWrapper \<Rightarrow> LlamaConfig" where
  "effective_config config s = (case config of None \<Rightarrow> m_currentConfig s | Some c \<Rightarrow> c)"

definition begin_generation ::
  "('m, 'c, 's) engine \<Rightarrow> LlamaConfig option \<Rightarrow> ('m, 'c, 's) LlamaContextWrapper
    \<Rightarrow> ('m, 'c, 's) LlamaContextWrapper" where
  "begin_generation e config s =
     (let s2 = s\<lparr>m_isGenerating := True, m_shouldCancel := False\<rparr>
      in case config of None \<Rightarrow> s2 | Some c \<Rightarrow> setupSampler e c s2)"

definition abort_generation ::
  "string \<Rightarrow> ('m, 'c, 's) LlamaContextWrapper \<Rightarrow> ('m, 'c, 's) LlamaContextWrapper" where
  "abort_generation err s = (setError err s)\<lparr>m_isGenerating := False\<rparr>"

definition generateStream ::
  "('m, 'c, 's) engine \<Rightarrow> string \<Rightarrow> (string \<Rightarrow> 'u \<Rightarrow> 'u \<times> bool) \<Rightarrow> LlamaConfig option
    \<Rightarrow> 'u \<Rightarrow> ('m, 'c, 's) LlamaContextWrapper
    \<Rightarrow> fault + ('u \<times> ('m, 'c, 's) LlamaContextWrapper)" where
  "generateStream e prompt callback config u s0 =
     (let s1 = clearError s0 in
      if \<not> isModelLoaded s1 then Inr (u, setError ''Model not loaded'' s1)
      else
        (let cfg = effective_config config s1;
             s3 = begin_generation e config s1
         in case (m_model s3, m_context s3) of
              (Some m, Some ctx) \<Rightarrow>
                (case tokenize e m prompt True of
                   Inl f \<Rightarrow> Inl f
                 | Inr promptTokens \<Rightarrow>
                     if promptTokens = [] then
                       Inr (u, abort_generation ''Failed to tokenize prompt'' s3)
                     else if int (length promptTokens) > sint (llama_n_ctx e ctx) - 4 then
                       Inr (u, abort_generation ''Prompt too long for context size'' s3)
                     else
                       (case prompt_batch cfg promptTokens of
                          Inl f \<Rightarrow> Inl f
                        | Inr batch \<Rightarrow>
                            (case llama_decode e ctx batch of
                               (rc, ctx') \<Rightarrow>
                                 let s4 = s3\<lparr>m_context := Some ctx'\<rparr> in
                                 if rc \<noteq> 0 then
                                   Inr (u, abort_generation ''Failed to process prompt'' s4)
                                 else
                                   (case generation_loop e cfg m callback batch (n_tokens batch)
                                           0 u s4 of
                                      Inl f \<Rightarrow> Inl f
                                    | Inr (u', s5) \<Rightarrow>
                                        Inr (u', s5\<lparr>m_isGenerating := False\<rparr>)))))
            | _ \<Rightarrow> Inl NullHandle))"

text \<open>\<^verbatim>\<open>generate\<close>: the callback appends the token to the local string \<^verbatim>\<open>result\<close>.\<close>

definition generate ::
  "('m, 'c, 's) engine \<Rightarrow> string \<Rightarrow> LlamaConfig option \<Rightarrow> ('m, 'c, 's) LlamaContextWrapper
    \<Rightarrow> fault + (string \<times> ('m, 'c, 's) LlamaContextWrapper)" where
  "generate e prompt config s =
     generateStream e prompt (\<lambda>token result. (result @ token, False)) config [] s"

text \<open>
  A caller that only listens: its callback appends each token it is given to a list.
\<close>

definition record_token :: "string \<Rightarrow> string list \<Rightarrow> string list \<times> bool" where
  "record_token piece heard = (heard @ [piece], False)"

subsection \<open>The variant without the engine\<close>

text \<open>
  With \<^verbatim>\<open>LLAMA_AVAILABLE\<close> undefined or zero the class calls no engine. The members for
  the handles are never assigned; the same record is used for the session.
\<close>

definition isModelLoaded_stub :: "('m, 'c, 's) LlamaContextWrapper \<Rightarrow> bool" where
  "isModelLoaded_stub s = True"

definition loadModel_stub ::
  "string \<Rightarrow> LlamaConfig \<Rightarrow> ('m, 'c, 's) LlamaContextWrapper
    \<Rightarrow> bool \<times> ('m, 'c, 's) LlamaContextWrapper" where
  "loadModel_stub modelPath config s = (True, (clearError s)\<lparr>m_currentConfig := config\<rparr>)"

definition unloadModel_stub ::
  "('m, 'c, 's) LlamaContextWrapper \<Rightarrow> ('m, 'c, 's) LlamaContextWrapper" where
  "unloadModel_stub s = s"

definition isspace :: "char \<Rightarrow> bool" where
  "isspace c = (c = CHR '' '' \<or> c = CHR 0x09 \<or> c = CHR 0x0A \<or> c = CHR 0x0B \<or> c = CHR 0x0C
                 \<or> c = CHR 0x0D)"

text \<open>
  The words \<^verbatim>\<open>iss >> word\<close> extracts from a string, in order; \<open>cur\<close> is the word being
  read.
\<close>

fun extract_words :: "string \<Rightarrow> string \<Rightarrow> string list" where
  "extract_words cur [] = (if cur = [] then [] else [cur])"
| "extract_words cur (c # cs) =
     (if isspace c then (if cur = [] then extract_words [] cs else cur # extract_words [] cs)
      else extract_words (cur @ [c]) cs)"

fun stub_loop ::
  "(string \<Rightarrow> 'u \<Rightarrow> 'u \<times> bool) \<Rightarrow> string list \<Rightarrow> 'u \<Rightarrow> ('m, 'c, 's) LlamaContextWrapper
    \<Rightarrow> 'u \<times> ('m, 'c, 's) LlamaContextWrapper" where
  "stub_loop callback [] u s = (u, s)"
| "stub_loop callback (word # rest) u s =
     (if m_shouldCancel s then (u, s)
      else (case callback (word @ '' '') u of
              (u', cancel) \<Rightarrow>
                stub_loop callback rest u' (if cancel then cancelGeneration s else s)))"

definition stubResponse :: "string \<Rightarrow> string" where
  "stubResponse prompt =
     ''Hello! This is a test response from llama-kotlin-android. ''
     @ ''The library is working but llama.cpp is not compiled in. ''
     @ (''Your prompt was: '' @ take 50 prompt @ ''...'')"

definition generateStream_stub ::
  "string \<Rightarrow> (string \<Rightarrow> 'u \<Rightarrow> 'u \<times> bool) \<Rightarrow> LlamaConfig option \<Rightarrow> 'u
    \<Rightarrow> ('m, 'c, 's) LlamaContextWrapper \<Rightarrow> 'u \<times> ('m, 'c, 's) LlamaContextWrapper" where
  "generateStream_stub prompt callback config u s0 =
     (let s1 = clearError s0 in
      if \<not> isModelLoaded_stub s1 then (u, setError ''Model not loaded'' s1)
      else
        (let s2 = s1\<lparr>m_isGenerating := True, m_shouldCancel := False\<rparr>
         in case stub_loop callback (extract_words [] (stubResponse prompt)) u s2 of
              (u', s3) \<Rightarrow> (u', s3\<lparr>m_isGenerating := False\<rparr>)))"

definition generate_stub ::
  "string \<Rightarrow> LlamaConfig option \<Rightarrow> ('m, 'c, 's) LlamaContextWrapper
    \<Rightarrow> string \<times> ('m, 'c, 's) LlamaContextWrapper" where
  "generate_stub prompt config s =
     generateStream_stub prompt (\<lambda>token result. (result @ token, False)) config [] s"

text \<open>
  Modelled from the spec: the state of a new session. The initial values of the members
  are in \<^verbatim>\<open>llama_context_wrapper.h\<close>, which is not among the sources; the spec has a
  session start Unloaded, not generating, with no error. The default configuration is a
  parameter.
\<close>

definition new_session :: "LlamaConfig \<Rightarrow> ('m, 'c, 's) LlamaContextWrapper" where
  "new_session config =
     \<lparr>m_model = None, m_context = None, m_sampler = None, m_currentConfig = config,
      m_lastError = [], m_isGenerating = False, m_shouldCancel = False, released = []\<rparr>"

subsection \<open>An engine to compute with\<close>

text \<open>
  A small engine, for evaluating the definitions at concrete inputs. Its only model file
  is \<^verbatim>\<open>model.gguf\<close>; a context is its window size and the number of cells of the KV cache
  in use, and cannot be created with a window of more than 4096 tokens; the tokenizer
  produces one id per byte of the length it is given, after a leading marker; decoding fills the cache and fails
  when it is full; a sampler chain is the list of its stages and the state of the
  generator of its final stage, which seeding sets and sampling advances; token 2 ends a
  generation.
\<close>

definition demo_engine :: "(unit, nat \<times> nat, llama_sampler list \<times> nat) engine" where
  "demo_engine =
     \<lparr>llama_model_load_from_file = (\<lambda>path p. if path = ''model.gguf'' then Some () else None),
      llama_init_from_model =
        (\<lambda>m p. if unat (n_ctx p) \<le> 4096 then Some (unat (n_ctx p), 0) else None),
      llama_n_ctx = (\<lambda>c. of_nat (fst c)),
      llama_tokenize =
        (\<lambda>m text text_len cap add_special parse_special.
           let ids = (if add_special then [1] else [])
                     @ map (\<lambda>c. int (of_char c)) (take (nat text_len) text)
           in if int (length ids) \<le> cap then (int (length ids), ids)
              else (- int (length ids), [])),
      llama_token_to_piece =
        (\<lambda>m t len. if 0 \<le> t \<and> t < 256 then (1, [char_of (nat t)]) else (- 1, [])),
      llama_vocab_is_eog = (\<lambda>m t. t = 2),
      llama_decode =
        (\<lambda>c b. if snd c + nat (n_tokens b) \<le> fst c
                then (0, (fst c, snd c + nat (n_tokens b))) else (1, c)),
      llama_sampler_chain_init = ([], 0),
      llama_sampler_chain_add =
        (\<lambda>s st. (fst s @ [st], (case st of llama_sampler_init_dist sd \<Rightarrow> unat sd | _ \<Rightarrow> snd s))),
      llama_sampler_sample = (\<lambda>s c. (65 + int (snd s mod 26), (fst s, Suc (snd s)))),
      std_time = 1700000000\<rparr>"

definition demo_config :: LlamaConfig where
  "demo_config =
     \<lparr>contextSize = 64, batchSize = 8, threads = 4, threadsBatch = 4, gpuLayers = 0,
      useMmap = True, useMlock = False, maxTokens = 3, temperature = Finite (7 / 10),
      topK = 40, topP = Finite (9 / 10), repeatPenalty = Finite (11 / 10), seed = 0\<rparr>"

text \<open>
  A configuration without the optional sampler stages (the top-P threshold is not a
  number) and with a negative seed.
\<close>

definition bare_config :: LlamaConfig where
  "bare_config =
     demo_config\<lparr>repeatPenalty := Finite 1, topK := 0, topP := NaN, temperature := Finite 0,
                  seed := - 1\<rparr>"

text \<open>
  A new session, and the session after the example model is loaded with the example
  configuration.
\<close>

definition demo_new :: "(unit, nat \<times> nat, llama_sampler list \<times> nat) LlamaContextWrapper" where
  "demo_new = new_session demo_config"

definition demo_loaded :: "(unit, nat \<times> nat, llama_sampler list \<times> nat) LlamaContextWrapper" where
  "demo_loaded = snd (loadModel demo_engine ''model.gguf'' demo_config demo_new)"

definition demo_chain :: "llama_sampler list" where
  "demo_chain =
     [llama_sampler_init_penalties 64 (Finite (11 / 10)) (Finite 0) (Finite 0),
      llama_sampler_init_top_k 40,
      llama_sampler_init_top_p (Finite (9 / 10)) 1,
      llama_sampler_init_temp (Finite (7 / 10)),
      llama_sampler_init_dist 0]"


text \<open>The session after one generation from \<open>demo_loaded\<close> with the prompt \<^verbatim>\<open>hi\<close>.\<close>

definition demo_second :: "(unit, nat \<times> nat, llama_sampler list \<times> nat) LlamaContextWrapper" where
  "demo_second = demo_loaded\<lparr>m_context := Some (64, 6), m_sampler := Some (demo_chain, 3)\<rparr>"

text \<open>The example engine with a tokenizer that always fails.\<close>

definition deaf_engine :: "(unit, nat \<times> nat, llama_sampler list \<times> nat) engine" where
  "deaf_engine =
     demo_engine\<lparr>llama_tokenize := (\<lambda>m text text_len cap add_special parse_special. (- 1, []))\<rparr>"

text \<open>
  The example engine with a sampler that looks at the context: the token it draws depends
  on the number of cells of the KV cache in use, as the logits of a real engine depend on
  the contents of the cache.
\<close>

definition cache_engine :: "(unit, nat \<times> nat, llama_sampler list \<times> nat) engine" where
  "cache_engine =
     demo_engine\<lparr>llama_sampler_sample :=
       (\<lambda>s c. (65 + int ((snd s + snd c) mod 26), (fst s, Suc (snd s))))\<rparr>"

text \<open>The session after one generation from \<open>demo_loaded\<close> with an override.\<close>

definition demo_second_override ::
  "(unit, nat \<times> nat, llama_sampler list \<times> nat) LlamaContextWrapper" where
  "demo_second_override = demo_second\<lparr>released := [llama_sampler_free (demo_chain, 0)]\<rparr>"



text \<open>The example engine with a tokenizer that reports an overflow (\<^verbatim>\<open>INT32_MIN\<close>).\<close>

definition overflow_engine :: "(unit, nat \<times> nat, llama_sampler list \<times> nat) engine" where
  "overflow_engine =
     demo_engine\<lparr>llama_tokenize :=
       (\<lambda>m text text_len cap add_special parse_special. (- 2147483648, []))\<rparr>"


section \<open>Properties\<close>

subsection \<open>Releasing the handles\<close>

lemma free_sampler_simps:
  "m_sampler (free_sampler s) = None"
  "m_context (free_sampler s) = m_context s"
  "m_model (free_sampler s) = m_model s"
  "m_lastError (free_sampler s) = m_lastError s"
  "released (free_sampler s) =
     released s @ (case m_sampler s of None \<Rightarrow> [] | Some smpl \<Rightarrow> [llama_sampler_free smpl])"
  by (simp_all add: free_sampler_def split: option.split)

lemma free_context_simps:
  "m_sampler (free_context s) = m_sampler s"
  "m_context (free_context s) = None"
  "m_model (free_context s) = m_model s"
  "m_lastError (free_context s) = m_lastError s"
  "released (free_context s) =
     released s @ (case m_context s of None \<Rightarrow> [] | Some ctx \<Rightarrow> [llama_free ctx])"
  by (simp_all add: free_context_def split: option.split)

lemma free_model_simps:
  "m_sampler (free_model s) = m_sampler s"
  "m_context (free_model s) = m_context s"
  "m_model (free_model s) = None"
  "m_lastError (free_model s) = m_lastError s"
  "released (free_model s) =
     released s @ (case m_model s of None \<Rightarrow> [] | Some m \<Rightarrow> [llama_model_free m])"
  by (simp_all add: free_model_def split: option.split)

lemma free_nothing:
  "m_sampler s = None \<Longrightarrow> free_sampler s = s"
  "m_context s = None \<Longrightarrow> free_context s = s"
  "m_model s = None \<Longrightarrow> free_model s = s"
  by (simp_all add: free_sampler_def free_context_def free_model_def)

lemma unloadModel_fields:
  "m_sampler (unloadModel s) = None"
  "m_context (unloadModel s) = None"
  "m_model (unloadModel s) = None"
  "m_lastError (unloadModel s) = m_lastError s"
  by (simp_all add: unloadModel_def free_sampler_simps free_context_simps free_model_simps)

lemma unloadModel_released:
  "released (unloadModel s) =
     released s
     @ (case m_sampler s of None \<Rightarrow> [] | Some smpl \<Rightarrow> [llama_sampler_free smpl])
     @ (case m_context s of None \<Rightarrow> [] | Some ctx \<Rightarrow> [llama_free ctx])
     @ (case m_model s of None \<Rightarrow> [] | Some m \<Rightarrow> [llama_model_free m])"
  by (simp add: unloadModel_def free_sampler_simps free_context_simps free_model_simps)

lemma unloadModel_unloaded:
  assumes "m_sampler s = None" and "m_context s = None" and "m_model s = None"
  shows "unloadModel s = s"
  using assms by (simp add: unloadModel_def free_nothing)

text \<open>
  Claim C8. \<^verbatim>\<open>unloadModel\<close> is idempotent, also on a session that was never loaded;
  afterwards the three handles are null; the calls it makes to release handles are, in
  this order, one for the sampler chain, one for the context and one for the model, each
  made only if the handle is present; it returns normally and leaves the error slot as
  it is. The variant without the engine does nothing, so it is idempotent too.
\<close>

theorem unloadModel_idempotent_ordered:
  "unloadModel (unloadModel s) = unloadModel s
   \<and> m_sampler (unloadModel s) = None
   \<and> m_context (unloadModel s) = None
   \<and> m_model (unloadModel s) = None
   \<and> released (unloadModel s) =
       released s
       @ (case m_sampler s of None \<Rightarrow> [] | Some smpl \<Rightarrow> [llama_sampler_free smpl])
       @ (case m_context s of None \<Rightarrow> [] | Some ctx \<Rightarrow> [llama_free ctx])
       @ (case m_model s of None \<Rightarrow> [] | Some m \<Rightarrow> [llama_model_free m])
   \<and> m_lastError (unloadModel s) = m_lastError s
   \<and> unloadModel_stub (unloadModel_stub s) = unloadModel_stub s"
  by (simp add: unloadModel_unloaded unloadModel_fields unloadModel_released unloadModel_stub_def)

subsection \<open>The sampler chain\<close>

lemma setupSampler_fields:
  "m_model (setupSampler e config s) = m_model s"
  "m_context (setupSampler e config s) = m_context s"
  "m_lastError (setupSampler e config s) = m_lastError s"
  "m_isGenerating (setupSampler e config s) = m_isGenerating s"
  "m_shouldCancel (setupSampler e config s) = m_shouldCancel s"
  "m_currentConfig (setupSampler e config s) = m_currentConfig s"
  "released (setupSampler e config s) =
     released s @ (case m_sampler s of None \<Rightarrow> [] | Some old \<Rightarrow> [llama_sampler_free old])"
  by (simp_all add: setupSampler_def Let_def split: option.split)

text \<open>
  Claim C6. The chain \<^verbatim>\<open>setupSampler\<close> builds is the engine's empty chain with these
  stages added, in this order: the penalties stage over the last 64 tokens, with the
  configured repeat penalty and frequency and presence penalties zero, iff
  \<open>repeatPenalty\<close> is not 1.0; the top-K stage iff \<open>topK > 0\<close>; the top-P stage iff
  \<open>topP < 1.0\<close>; the temperature stage iff \<open>temperature > 0.0\<close>; and always, last, the
  distribution stage, seeded with the configured seed when that is not negative and with
  the wall-clock time (cut to 32 bits) otherwise.
\<close>

theorem setupSampler_chain:
  "m_sampler (setupSampler e config s) =
     Some (foldl (llama_sampler_chain_add e) (llama_sampler_chain_init e)
       ((if float_ne (repeatPenalty config) (Finite 1)
         then [llama_sampler_init_penalties 64 (repeatPenalty config) (Finite 0) (Finite 0)]
         else [])
        @ (if 0 < topK config then [llama_sampler_init_top_k (topK config)] else [])
        @ (if float_lt (topP config) (Finite 1)
           then [llama_sampler_init_top_p (topP config) 1] else [])
        @ (if float_gt (temperature config) (Finite 0)
           then [llama_sampler_init_temp (temperature config)] else [])
        @ [llama_sampler_init_dist
             (if 0 \<le> seed config then word_of_int (seed config)
              else word_of_int (std_time e))]))"
  by (simp add: setupSampler_def sampler_seed_def Let_def split: option.split)

text \<open>
  The chain of the example configuration, which has all five stages; the chain of a
  configuration that switches the four optional stages off and has a negative seed; and
  the same with a repeat penalty that is not a number.
\<close>

theorem setupSampler_chain_witness:
  "m_sampler (setupSampler demo_engine demo_config demo_new) =
     Some ([llama_sampler_init_penalties 64 (Finite (11 / 10)) (Finite 0) (Finite 0),
            llama_sampler_init_top_k 40,
            llama_sampler_init_top_p (Finite (9 / 10)) 1,
            llama_sampler_init_temp (Finite (7 / 10)),
            llama_sampler_init_dist 0], 0)
   \<and> m_sampler (setupSampler demo_engine bare_config demo_new) =
       Some ([llama_sampler_init_dist 1700000000], 1700000000)
   \<and> m_sampler (setupSampler demo_engine (bare_config\<lparr>repeatPenalty := NaN\<rparr>) demo_new) =
       Some ([llama_sampler_init_penalties 64 NaN (Finite 0) (Finite 0),
              llama_sampler_init_dist 1700000000], 1700000000)"
  using setupSampler_chain [of demo_engine demo_config demo_new]
        setupSampler_chain [of demo_engine bare_config demo_new]
        setupSampler_chain [of demo_engine "bare_config\<lparr>repeatPenalty := NaN\<rparr>" demo_new]
  by (simp add: demo_engine_def demo_config_def bare_config_def float_ne_def float_gt_def)

subsection \<open>Loading\<close>

lemma loadModel_model_fails:
  assumes "llama_model_load_from_file e path (modelParams_of config) = None"
  shows "loadModel e path config s =
           (False, (before_load s)\<lparr>m_model := None,
                                   m_lastError := ''Failed to load model from: '' @ path\<rparr>)"
  using assms by (simp add: loadModel_def setError_def Let_def)

lemma loadModel_context_fails:
  assumes "llama_model_load_from_file e path (modelParams_of config) = Some m"
      and "llama_init_from_model e m (ctxParams_of config) = None"
  shows "loadModel e path config s =
           (False, (before_load s)\<lparr>m_model := None, m_context := None,
                      m_lastError := ''Failed to create llama context'',
                      released := released (before_load s) @ [llama_model_free m]\<rparr>)"
  using assms by (simp add: loadModel_def setError_def Let_def)

lemma loadModel_succeeds:
  assumes "llama_model_load_from_file e path (modelParams_of config) = Some m"
      and "llama_init_from_model e m (ctxParams_of config) = Some ctx"
  shows "loadModel e path config s =
           (True, (setupSampler e config ((before_load s)\<lparr>m_model := Some m, m_context := Some ctx\<rparr>))
                    \<lparr>m_currentConfig := config\<rparr>)"
  using assms by (simp add: loadModel_def setError_def Let_def)

lemma before_load_fields:
  "m_lastError (before_load s) = []"
  "m_model s = None \<Longrightarrow> m_context (before_load s) = m_context s"
  "m_model s = None \<Longrightarrow> m_sampler (before_load s) = m_sampler s"
  "m_model s \<noteq> None \<Longrightarrow> m_context (before_load s) = None"
  "m_model s \<noteq> None \<Longrightarrow> m_sampler (before_load s) = None"
  by (simp_all add: before_load_def clearError_def unloadModel_fields Let_def)

lemma loadModel_cases:
  obtains
    (model_fails) "llama_model_load_from_file e path (modelParams_of config) = None"
  | (context_fails) m where "llama_model_load_from_file e path (modelParams_of config) = Some m"
      "llama_init_from_model e m (ctxParams_of config) = None"
  | (succeeds) m ctx where "llama_model_load_from_file e path (modelParams_of config) = Some m"
      "llama_init_from_model e m (ctxParams_of config) = Some ctx"
  by (cases "llama_model_load_from_file e path (modelParams_of config)") auto

text \<open>
  Claim C4. If the engine loads the model and then fails to create the context,
  \<^verbatim>\<open>loadModel\<close> returns false, the model just loaded is released (the call is the last
  one recorded), both handles are null and the error slot holds the message of the
  failure. After any failing \<^verbatim>\<open>loadModel\<close> the model handle is null, so the session is
  not loaded, and the error slot is not empty; and if the session was not half-built
  before the call (no context or sampler without a model), no handle at all is left.
\<close>

theorem loadModel_failure_unwinds:
  "(llama_model_load_from_file e path (modelParams_of config) = Some m
      \<and> llama_init_from_model e m (ctxParams_of config) = None
    \<longrightarrow> loadModel e path config s =
          (False, (before_load s)\<lparr>m_model := None, m_context := None,
                     m_lastError := ''Failed to create llama context'',
                     released := released (before_load s) @ [llama_model_free m]\<rparr>))
   \<and> (\<not> fst (loadModel e path config s)
    \<longrightarrow> m_model (snd (loadModel e path config s)) = None
        \<and> \<not> isModelLoaded (snd (loadModel e path config s))
        \<and> m_lastError (snd (loadModel e path config s)) \<noteq> [])
   \<and> (\<not> fst (loadModel e path config s) \<and> (m_model s = None \<longrightarrow> m_context s = None \<and> m_sampler s = None)
    \<longrightarrow> m_context (snd (loadModel e path config s)) = None
        \<and> m_sampler (snd (loadModel e path config s)) = None)"
proof (cases rule: loadModel_cases [of e path config])
  case model_fails
  then show ?thesis
    by (cases "m_model s = None") (simp_all add: loadModel_model_fails isModelLoaded_def before_load_fields)
next
  case (context_fails m')
  then show ?thesis
    by (cases "m_model s = None")
       (simp_all add: loadModel_context_fails isModelLoaded_def before_load_fields)
next
  case (succeeds m' ctx)
  then show ?thesis
    by (auto simp: loadModel_succeeds)
qed

lemma demo_setupSampler:
  "setupSampler demo_engine demo_config s =
     s\<lparr>released := released s @ (case m_sampler s of None \<Rightarrow> [] | Some old \<Rightarrow> [llama_sampler_free old]),
       m_sampler := Some (demo_chain, 0)\<rparr>"
  by (simp add: setupSampler_def sampler_seed_def demo_engine_def demo_config_def demo_chain_def
        float_ne_def float_gt_def Let_def split: option.split)

lemma demo_loaded_eq:
  "demo_loaded =
     \<lparr>m_model = Some (), m_context = Some (64, 0), m_sampler = Some (demo_chain, 0),
      m_currentConfig = demo_config, m_lastError = [], m_isGenerating = False,
      m_shouldCancel = False, released = []\<rparr>"
proof -
  have "llama_model_load_from_file demo_engine ''model.gguf'' (modelParams_of demo_config) = Some ()"
    by (simp add: demo_engine_def)
  moreover have "llama_init_from_model demo_engine () (ctxParams_of demo_config) = Some (64, 0)"
    by (simp add: demo_engine_def ctxParams_of_def demo_config_def)
  ultimately show ?thesis
    by (simp add: demo_loaded_def loadModel_succeeds demo_setupSampler before_load_def
          clearError_def new_session_def demo_new_def Let_def)
qed

text \<open>
  A reload that fails at the context: the old sampler, context and model are released,
  then the new model.
\<close>

theorem loadModel_failure_unwinds_witness:
  "llama_model_load_from_file demo_engine ''model.gguf''
      (modelParams_of (demo_config\<lparr>contextSize := 8192\<rparr>)) = Some ()
   \<and> llama_init_from_model demo_engine () (ctxParams_of (demo_config\<lparr>contextSize := 8192\<rparr>)) = None
   \<and> loadModel demo_engine ''model.gguf'' (demo_config\<lparr>contextSize := 8192\<rparr>) demo_loaded =
       (False,
        \<lparr>m_model = None, m_context = None, m_sampler = None, m_currentConfig = demo_config,
         m_lastError = ''Failed to create llama context'', m_isGenerating = False,
         m_shouldCancel = False,
         released = [llama_sampler_free (demo_chain, 0), llama_free (64, 0), llama_model_free (),
                     llama_model_free ()]\<rparr>)
   \<and> \<not> isModelLoaded (snd (loadModel demo_engine ''model.gguf'' (demo_config\<lparr>contextSize := 8192\<rparr>)
                               demo_loaded))"
proof -
  have load: "llama_model_load_from_file demo_engine ''model.gguf''
      (modelParams_of (demo_config\<lparr>contextSize := 8192\<rparr>)) = Some ()"
    by (simp add: demo_engine_def)
  have init: "llama_init_from_model demo_engine ()
      (ctxParams_of (demo_config\<lparr>contextSize := 8192\<rparr>)) = None"
    by (simp add: demo_engine_def ctxParams_of_def demo_config_def)
  have pre: "before_load demo_loaded =
     \<lparr>m_model = None, m_context = None, m_sampler = None, m_currentConfig = demo_config,
      m_lastError = [], m_isGenerating = False, m_shouldCancel = False,
      released = [llama_sampler_free (demo_chain, 0), llama_free (64, 0), llama_model_free ()]\<rparr>"
    by (simp add: before_load_def demo_loaded_eq clearError_def unloadModel_def free_sampler_def
          free_context_def free_model_def Let_def)
  show ?thesis
    using loadModel_failure_unwinds
            [of demo_engine "''model.gguf''" "demo_config\<lparr>contextSize := 8192\<rparr>" "()" demo_loaded]
          load init
    by (simp add: pre isModelLoaded_def)
qed

subsection \<open>The exits of \<^verbatim>\<open>generateStream\<close> before the loop\<close>

lemma begin_generation_fields:
  "m_model (begin_generation e config s) = m_model s"
  "m_context (begin_generation e config s) = m_context s"
  "m_lastError (begin_generation e config s) = m_lastError s"
  "m_isGenerating (begin_generation e config s) = True"
  "m_shouldCancel (begin_generation e config s) = False"
  "m_currentConfig (begin_generation e config s) = m_currentConfig s"
  by (simp_all add: begin_generation_def setupSampler_fields Let_def split: option.split)


lemma generateStream_not_loaded:
  assumes "\<not> isModelLoaded s"
  shows "generateStream e prompt callback config u s =
           Inr (u, s\<lparr>m_lastError := ''Model not loaded''\<rparr>)"
  using assms by (simp add: generateStream_def isModelLoaded_def clearError_def setError_def Let_def)

lemma generateStream_loaded:
  assumes "m_model s = Some m" and "m_context s = Some ctx"
  shows "generateStream e prompt callback config u s =
     (let s3 = begin_generation e config (clearError s) in
      case tokenize e m prompt True of
        Inl f \<Rightarrow> Inl f
      | Inr promptTokens \<Rightarrow>
          if promptTokens = [] then Inr (u, abort_generation ''Failed to tokenize prompt'' s3)
          else if int (length promptTokens) > sint (llama_n_ctx e ctx) - 4 then
            Inr (u, abort_generation ''Prompt too long for context size'' s3)
          else
            (case prompt_batch (effective_config config s) promptTokens of
               Inl f \<Rightarrow> Inl f
             | Inr batch \<Rightarrow>
                 (case llama_decode e ctx batch of
                    (rc, ctx') \<Rightarrow>
                      if rc \<noteq> 0 then
                        Inr (u, abort_generation ''Failed to process prompt''
                                  (s3\<lparr>m_context := Some ctx'\<rparr>))
                      else
                        (case generation_loop e (effective_config config s) m callback batch
                                (n_tokens batch) 0 u (s3\<lparr>m_context := Some ctx'\<rparr>) of
                           Inl f \<Rightarrow> Inl f
                         | Inr (u', s5) \<Rightarrow> Inr (u', s5\<lparr>m_isGenerating := False\<rparr>)))))"
proof -
  have "isModelLoaded (clearError s)"
    using assms by (simp add: isModelLoaded_def clearError_def)
  moreover have "m_model (begin_generation e config (clearError s)) = Some m"
    and "m_context (begin_generation e config (clearError s)) = Some ctx"
    using assms by (simp_all add: begin_generation_fields clearError_def)
  moreover have "effective_config config (clearError s) = effective_config config s"
    by (simp add: effective_config_def clearError_def split: option.split)
  ultimately show ?thesis
    by (simp add: generateStream_def Let_def split: sum.split prod.split)
qed

text \<open>
  Claim C2, for the variant with the engine. On a session that is not loaded (no
  \<^verbatim>\<open>loadModel\<close> has succeeded, or the model was unloaded), \<^verbatim>\<open>generateStream\<close> and
  \<^verbatim>\<open>generate\<close> end with the error \<^verbatim>\<open>Model not loaded\<close>; the callback is not called (the
  caller's state comes back as it was, and \<^verbatim>\<open>generate\<close> returns the empty string);
  and the error slot is the only member written, so \<^verbatim>\<open>isGenerating\<close> is what it was.
\<close>

theorem generate_not_loaded:
  assumes "\<not> isModelLoaded s"
  shows "generateStream e prompt callback config u s =
           Inr (u, s\<lparr>m_lastError := ''Model not loaded''\<rparr>)
         \<and> generate e prompt config s = Inr ([], s\<lparr>m_lastError := ''Model not loaded''\<rparr>)
         \<and> isGenerating (s\<lparr>m_lastError := ''Model not loaded''\<rparr>) = isGenerating s"
  using assms by (simp add: generate_def generateStream_not_loaded isGenerating_def)

text \<open>A new session, with and without a configuration for the call.\<close>

theorem generate_not_loaded_witness:
  "\<not> isModelLoaded demo_new
   \<and> \<not> isGenerating demo_new
   \<and> generateStream demo_engine ''hi'' record_token (Some demo_config) [] demo_new =
       Inr ([], demo_new\<lparr>m_lastError := ''Model not loaded''\<rparr>)
   \<and> generate demo_engine ''hi'' None demo_new =
       Inr ([], demo_new\<lparr>m_lastError := ''Model not loaded''\<rparr>)
   \<and> \<not> isGenerating (demo_new\<lparr>m_lastError := ''Model not loaded''\<rparr>)"
proof -
  have unloaded: "\<not> isModelLoaded demo_new"
    by (simp add: isModelLoaded_def demo_new_def new_session_def)
  show ?thesis
    using generate_not_loaded [OF unloaded, of demo_engine "''hi''" record_token "Some demo_config" "[]"]
          generate_not_loaded [OF unloaded, of demo_engine "''hi''" record_token None "[]"]
          unloaded
    by (simp add: isGenerating_def demo_new_def new_session_def)
qed

text \<open>
  The variant without the engine: \<^verbatim>\<open>isModelLoaded\<close> is always true there, and
  \<^verbatim>\<open>generateStream\<close> on a new session streams the canned response.
\<close>

lemma stub_words:
  "extract_words [] (stubResponse ''hi'') =
   [''Hello!'', ''This'', ''is'', ''a'', ''test'', ''response'', ''from'',
    ''llama-kotlin-android.'', ''The'', ''library'', ''is'', ''working'', ''but'',
    ''llama.cpp'', ''is'', ''not'', ''compiled'', ''in.'', ''Your'', ''prompt'',
    ''was:'', ''hi...'']"
  by code_simp

lemma stub_loop_record_token:
  assumes "\<not> m_shouldCancel s"
  shows "stub_loop record_token ws heard s = (heard @ map (\<lambda>w. w @ '' '') ws, s)"
  using assms by (induction ws arbitrary: heard) (simp_all add: record_token_def)

text \<open>
  Claim C2 fails in the variant without the engine. On a new session, which is not loaded
  in the sense of the handles, \<^verbatim>\<open>generateStream\<close> calls the callback 22 times and ends
  with the error slot empty.
\<close>

theorem generate_not_loaded_counterexample:
  "\<not> isModelLoaded (new_session demo_config :: (unit, unit, unit) LlamaContextWrapper)
   \<and> generateStream_stub ''hi'' record_token None []
        (new_session demo_config :: (unit, unit, unit) LlamaContextWrapper) =
       ([''Hello! '', ''This '', ''is '', ''a '', ''test '', ''response '', ''from '',
         ''llama-kotlin-android. '', ''The '', ''library '', ''is '', ''working '', ''but '',
         ''llama.cpp '', ''is '', ''not '', ''compiled '', ''in. '', ''Your '', ''prompt '',
         ''was: '', ''hi... ''],
        new_session demo_config)"
proof -
  have "generateStream_stub ''hi'' record_token None []
          (new_session demo_config :: (unit, unit, unit) LlamaContextWrapper) =
        (map (\<lambda>w. w @ '' '')
           [''Hello!'', ''This'', ''is'', ''a'', ''test'', ''response'', ''from'',
            ''llama-kotlin-android.'', ''The'', ''library'', ''is'', ''working'', ''but'',
            ''llama.cpp'', ''is'', ''not'', ''compiled'', ''in.'', ''Your'', ''prompt'',
            ''was:'', ''hi...''],
         new_session demo_config)"
    unfolding generateStream_stub_def isModelLoaded_stub_def Let_def stub_words
    by (simp add: stub_loop_record_token new_session_def clearError_def del: stub_loop.simps list.map)
  then show ?thesis
    by (simp add: isModelLoaded_def new_session_def)
qed


lemma to_int32_small:
  assumes "n < 2 ^ 31"
  shows "to_int32 n = int n"
  using assms unfolding to_int32_def
  by transfer (simp add: signed_take_bit_int_eq_self)






subsection \<open>Batches stay in bounds\<close>

lemma batch_write_in_bounds:
  assumes "0 \<le> i" and "nat i < length (slots b)"
  shows "batch_write b i f = Inr (b\<lparr>slots := (slots b)[nat i := f (slots b ! nat i)]\<rparr>)"
  using assms by (simp add: batch_write_def)

lemma batch_write_out_of_bounds:
  assumes "length (slots b) \<le> nat i"
  shows "batch_write b i f = Inl BatchOverflow"
  using assms by (simp add: batch_write_def)

lemma add_prompt_tokens_fits:
  assumes "0 \<le> n_tokens b" and "nat (n_tokens b) + length ts \<le> length (slots b)"
  shows "\<exists>b'. add_prompt_tokens b i ts = Inr b' \<and> length (slots b') = length (slots b)
              \<and> n_tokens b' = n_tokens b + int (length ts)"
  using assms
proof (induction ts arbitrary: b i)
  case Nil
  then show ?case by simp
next
  case (Cons t ts)
  let ?f = "\<lambda>sl. sl\<lparr>token := t, pos := int i, n_seq_id := 1, seq_id := (seq_id sl)[0 := 0],
                       logits := False\<rparr>"
  let ?b1 = "b\<lparr>slots := (slots b)[nat (n_tokens b) := ?f (slots b ! nat (n_tokens b))]\<rparr>"
  have w: "batch_write b (n_tokens b) ?f = Inr ?b1"
    using Cons.prems by (intro batch_write_in_bounds) simp_all
  have "\<exists>b'. add_prompt_tokens (?b1\<lparr>n_tokens := n_tokens ?b1 + 1\<rparr>) (Suc i) ts = Inr b'
            \<and> length (slots b') = length (slots (?b1\<lparr>n_tokens := n_tokens ?b1 + 1\<rparr>))
            \<and> n_tokens b' = n_tokens (?b1\<lparr>n_tokens := n_tokens ?b1 + 1\<rparr>) + int (length ts)"
    using Cons.prems by (intro Cons.IH) (simp_all add: nat_add_distrib)
  then show ?case
    by (auto simp: w)
qed

lemma add_prompt_tokens_overflows:
  assumes "0 \<le> n_tokens b" and "nat (n_tokens b) \<le> length (slots b)"
      and "length (slots b) < nat (n_tokens b) + length ts"
  shows "add_prompt_tokens b i ts = Inl BatchOverflow"
  using assms
proof (induction ts arbitrary: b i)
  case Nil
  then show ?case by simp
next
  case (Cons t ts)
  let ?f = "\<lambda>sl. sl\<lparr>token := t, pos := int i, n_seq_id := 1, seq_id := (seq_id sl)[0 := 0],
                       logits := False\<rparr>"
  show ?case
  proof (cases "nat (n_tokens b) < length (slots b)")
    case False
    then have "batch_write b (n_tokens b) ?f = Inl BatchOverflow"
      by (intro batch_write_out_of_bounds) simp
    then show ?thesis by simp
  next
    case True
    let ?b1 = "b\<lparr>slots := (slots b)[nat (n_tokens b) := ?f (slots b ! nat (n_tokens b))]\<rparr>"
    have w: "batch_write b (n_tokens b) ?f = Inr ?b1"
      using True Cons.prems by (intro batch_write_in_bounds) simp_all
    have "add_prompt_tokens (?b1\<lparr>n_tokens := n_tokens ?b1 + 1\<rparr>) (Suc i) ts = Inl BatchOverflow"
      using True Cons.prems by (intro Cons.IH) (simp_all add: nat_add_distrib)
    then show ?thesis
      by (simp add: w)
  qed
qed

lemma prompt_batch_fits:
  assumes "toks \<noteq> []" and "int (length toks) \<le> batchSize cfg"
  shows "\<exists>b. prompt_batch cfg toks = Inr b \<and> length (slots b) = nat (batchSize cfg)
             \<and> n_tokens b = int (length toks)"
proof -
  let ?b0 = "(llama_batch_init (batchSize cfg))\<lparr>n_tokens := 0\<rparr>"
  have "\<exists>b'. add_prompt_tokens ?b0 0 toks = Inr b' \<and> length (slots b') = length (slots ?b0)
              \<and> n_tokens b' = n_tokens ?b0 + int (length toks)"
    using assms by (intro add_prompt_tokens_fits) (simp_all add: llama_batch_init_def)
  then obtain b' where b': "add_prompt_tokens ?b0 0 toks = Inr b'"
      "length (slots b') = nat (batchSize cfg)" "n_tokens b' = int (length toks)"
    by (auto simp: llama_batch_init_def)
  have "0 < length toks"
    using assms(1) by simp
  then have pos: "0 < n_tokens b'" and inb: "nat (n_tokens b' - 1) < length (slots b')"
    using assms(2) b'(2,3) by linarith+
  have "batch_write b' (n_tokens b' - 1) (\<lambda>sl. sl\<lparr>logits := True\<rparr>) =
          Inr (b'\<lparr>slots := (slots b')[nat (n_tokens b' - 1) :=
                     (slots b' ! nat (n_tokens b' - 1))\<lparr>logits := True\<rparr>]\<rparr>)"
    using pos inb by (intro batch_write_in_bounds) simp_all
  then show ?thesis
    using b' pos by (simp add: prompt_batch_def)
qed

lemma prompt_batch_overflows:
  assumes "toks \<noteq> []" and "batchSize cfg < int (length toks)"
  shows "prompt_batch cfg toks = Inl BatchOverflow"
proof -
  let ?b0 = "(llama_batch_init (batchSize cfg))\<lparr>n_tokens := 0\<rparr>"
  have "0 < length toks"
    using assms(1) by simp
  then have "nat (batchSize cfg) < length toks"
    using assms(2) by linarith
  then have "add_prompt_tokens ?b0 0 toks = Inl BatchOverflow"
    by (intro add_prompt_tokens_overflows) (simp_all add: llama_batch_init_def)
  then show ?thesis
    by (simp add: prompt_batch_def)
qed

lemma loop_body_Continue_slots:
  assumes "loop_body e vocab callback b n u s = Continue b' u' s'"
  shows "length (slots b') = length (slots b)"
  using assms
  by (auto simp: loop_body_def next_batch_def batch_write_def Let_def
           split: option.splits prod.splits if_splits sum.splits)

lemma loop_body_no_overflow:
  assumes "slots b \<noteq> []"
  shows "loop_body e vocab callback b n u s \<noteq> Fault BatchOverflow"
  using assms
  by (auto simp: loop_body_def next_batch_def batch_write_def Let_def
           split: option.splits prod.splits if_splits sum.splits)

lemma generation_loop_no_overflow:
  assumes "slots b \<noteq> []"
  shows "generation_loop e cfg vocab callback b n_cur n_generated u s \<noteq> Inl BatchOverflow"
  using assms
proof (induction e cfg vocab callback b n_cur n_generated u s rule: generation_loop.induct)
  case (1 e cfg vocab callback batch n_cur n_generated u s)
  show ?case
  proof (cases "loop_body e vocab callback batch n_cur u s")
    case (Fault f)
    then have "f \<noteq> BatchOverflow"
      using loop_body_no_overflow [OF "1.prems", of e vocab callback n_cur u s] by auto
    then show ?thesis
      using Fault by (simp add: generation_loop.simps [of e cfg vocab callback batch])
  next
    case (Break u' s')
    then show ?thesis
      by (simp add: generation_loop.simps [of e cfg vocab callback batch])
  next
    case (Continue batch' u' s')
    then have "slots batch' \<noteq> []"
      using loop_body_Continue_slots [OF Continue] "1.prems" by auto
    then show ?thesis
      using Continue "1.IH"
      by (simp add: generation_loop.simps [of e cfg vocab callback batch])
  qed
qed

text \<open>
  Claim C3. The prompt batch is allocated with \<open>batchSize\<close> slots (of the configuration
  in effect) and one slot is written per prompt token; the only check before is the one
  against \<open>n_ctx - 4\<close>. So on a loaded session, for a prompt that passes that check,
  \<^verbatim>\<open>generateStream\<close> writes past the end of the batch exactly when the prompt has more
  tokens than \<open>batchSize\<close>: all writes to the batch, those of the loop included, stay in
  bounds iff the token count is at most \<open>batchSize\<close>.
\<close>

theorem prompt_batch_bounds:
  assumes "m_model s = Some m" and "m_context s = Some ctx"
      and "tokenize e m prompt True = Inr toks" and "toks \<noteq> []"
      and "int (length toks) \<le> sint (llama_n_ctx e ctx) - 4"
  shows "(generateStream e prompt callback config u s = Inl BatchOverflow)
           = (batchSize (effective_config config s) < int (length toks))"
proof (cases "batchSize (effective_config config s) < int (length toks)")
  case True
  then show ?thesis
    using assms(3-5)
    by (simp add: generateStream_loaded [OF assms(1,2)] Let_def prompt_batch_overflows)
next
  case False
  then obtain b where b: "prompt_batch (effective_config config s) toks = Inr b"
      "length (slots b) = nat (batchSize (effective_config config s))"
      "n_tokens b = int (length toks)"
    using prompt_batch_fits [OF assms(4), of "effective_config config s"] by auto
  have "slots b \<noteq> []"
    using b False assms(4) by (cases toks) auto
  then have "generation_loop e cfg m callback b n 0 u s' \<noteq> Inl BatchOverflow" for cfg n s'
    by (rule generation_loop_no_overflow)
  then show ?thesis
    using False assms(3-5) b(1)
    by (auto simp: generateStream_loaded [OF assms(1,2)] Let_def split: prod.splits sum.splits)
qed

lemma demo_tokenize_digits:
  "tokenize demo_engine () ''12345678'' True = Inr [1, 49, 50, 51, 52, 53, 54, 55, 56]"
  by code_simp

lemma demo_tokenize_hi:
  "tokenize demo_engine () ''hi'' True = Inr [1, 104, 105]"
  by code_simp

text \<open>
  A batch of 8 slots and a window of 64 tokens: a prompt of 9 tokens overflows the batch,
  a prompt of 3 tokens does not.
\<close>

theorem prompt_batch_bounds_witness:
  "m_model demo_loaded = Some () \<and> m_context demo_loaded = Some (64, 0)
   \<and> sint (llama_n_ctx demo_engine (64, 0)) - 4 = 60
   \<and> batchSize (effective_config None demo_loaded) = 8
   \<and> tokenize demo_engine () ''12345678'' True = Inr [1, 49, 50, 51, 52, 53, 54, 55, 56]
   \<and> generateStream demo_engine ''12345678'' record_token None [] demo_loaded = Inl BatchOverflow
   \<and> tokenize demo_engine () ''hi'' True = Inr [1, 104, 105]
   \<and> generateStream demo_engine ''hi'' record_token None [] demo_loaded \<noteq> Inl BatchOverflow"
proof -
  have m: "m_model demo_loaded = Some ()" and c: "m_context demo_loaded = Some (64, 0)"
    by (simp_all add: demo_loaded_eq)
  have n: "sint (llama_n_ctx demo_engine (64, 0)) - 4 = 60"
    by (simp add: demo_engine_def)
  have b: "batchSize (effective_config None demo_loaded) = 8"
    by (simp add: effective_config_def demo_loaded_eq demo_config_def)
  have t1: "[1, 49, 50, 51, 52, 53, 54, 55, 56] \<noteq> ([] :: llama_token list)"
    and l1: "int (length [1, 49, 50, 51, 52, 53, 54, 55, 56 :: llama_token])
               \<le> sint (llama_n_ctx demo_engine (64, 0)) - 4"
    by (simp_all add: n)
  have t2: "[1, 104, 105] \<noteq> ([] :: llama_token list)"
    and l2: "int (length [1, 104, 105 :: llama_token]) \<le> sint (llama_n_ctx demo_engine (64, 0)) - 4"
    by (simp_all add: n)
  show ?thesis
    using prompt_batch_bounds [OF m c demo_tokenize_digits t1 l1, of record_token None "[]"]
          prompt_batch_bounds [OF m c demo_tokenize_hi t2 l2, of record_token None "[]"] m c n b
    by (simp add: demo_tokenize_digits demo_tokenize_hi)
qed

subsection \<open>The blocking call and the stream\<close>

lemma loop_body_simulation:
  assumes "\<And>t u. cb1 t (f u) = map_prod f id (cb2 t u)"
  shows "loop_body e vocab cb1 b n (f u) s = map_iteration f id (loop_body e vocab cb2 b n u s)"
proof -
  have "cb1 t (f u) = (f (fst (cb2 t u)), snd (cb2 t u))" for t
    by (simp add: assms map_prod_def split_beta)
  then show ?thesis
    by (simp add: loop_body_def Let_def split_beta split: option.split sum.split)
qed

lemma generation_loop_stop:
  assumes "\<not> (n_generated < maxTokens cfg \<and> \<not> m_shouldCancel s)"
  shows "generation_loop e cfg vocab callback batch n_cur n_generated u s = Inr (u, s)"
  by (subst generation_loop.simps) (use assms in auto)

lemma generation_loop_step:
  assumes "n_generated < maxTokens cfg \<and> \<not> m_shouldCancel s"
  shows "generation_loop e cfg vocab callback batch n_cur n_generated u s =
           (case loop_body e vocab callback batch n_cur u s of
              Fault f \<Rightarrow> Inl f
            | Break u' s' \<Rightarrow> Inr (u', s')
            | Continue batch' u' s' \<Rightarrow>
                generation_loop e cfg vocab callback batch' (n_cur + 1) (n_generated + 1) u' s')"
  by (subst generation_loop.simps) (use assms in simp)

lemma generation_loop_simulation:
  assumes "\<And>t u. cb1 t (f u) = map_prod f id (cb2 t u)"
  shows "generation_loop e cfg vocab cb1 b n_cur n_generated (f u) s =
           map_sum id (map_prod f id) (generation_loop e cfg vocab cb2 b n_cur n_generated u s)"
  using assms
proof (induction e cfg vocab cb2 b n_cur n_generated u s rule: generation_loop.induct)
  case (1 e cfg vocab cb2 batch n_cur n_generated u s)
  note sim = loop_body_simulation [of cb1 f cb2, OF "1.prems", of e vocab batch n_cur u s]
  show ?case
  proof (cases "n_generated < maxTokens cfg \<and> \<not> m_shouldCancel s")
    case False
    then show ?thesis
      by (simp add: generation_loop_stop)
  next
    case True
    show ?thesis
    proof (cases "loop_body e vocab cb2 batch n_cur u s")
      case (Fault x)
      then show ?thesis
        using sim by (simp add: generation_loop_step [OF True])
    next
      case (Break u' s')
      then show ?thesis
        using sim by (simp add: generation_loop_step [OF True])
    next
      case (Continue batch' u' s')
      then show ?thesis
        using sim "1.IH" [OF True Continue "1.prems"]
        by (simp add: generation_loop_step [OF True])
    qed
  qed
qed

lemma stub_loop_simulation:
  assumes "\<And>t u. cb1 t (f u) = map_prod f id (cb2 t u)"
  shows "stub_loop cb1 ws (f u) s = map_prod f id (stub_loop cb2 ws u s)"
proof (induction ws arbitrary: u s)
  case Nil
  then show ?case by simp
next
  case (Cons w ws)
  have "cb1 t (f u) = (f (fst (cb2 t u)), snd (cb2 t u))" for t
    by (simp add: assms map_prod_def split_beta)
  then show ?case
    by (simp add: Cons.IH split_beta)
qed

text \<open>
  Claim C5. From the same session, with the same engine, prompt and configuration, the
  string \<^verbatim>\<open>generate\<close> returns is the concatenation, in order, of the token strings
  \<^verbatim>\<open>generateStream\<close> passes to a callback that records them; the two calls leave the
  session in the same state, and fail together. This holds in both variants of the file.
\<close>

theorem generate_is_concatenated_stream:
  "generate e prompt config s =
     (case generateStream e prompt record_token config [] s of
        Inl f \<Rightarrow> Inl f
      | Inr (heard, s') \<Rightarrow> Inr (concat heard, s'))
   \<and> generate_stub prompt config s =
     (case generateStream_stub prompt record_token config [] s of
        (heard, s') \<Rightarrow> (concat heard, s'))"
proof
  have loop: "generation_loop e cfg vocab (\<lambda>token result. (result @ token, False)) b n 0 [] s' =
      map_sum id (map_prod concat id) (generation_loop e cfg vocab record_token b n 0 [] s')"
    for cfg vocab b n s'
    using generation_loop_simulation
            [of "\<lambda>token result. (result @ token, False)" concat record_token e cfg vocab b n 0 "[]" s']
    by (simp add: record_token_def)
  show "generate e prompt config s =
     (case generateStream e prompt record_token config [] s of
        Inl f \<Rightarrow> Inl f
      | Inr (heard, s') \<Rightarrow> Inr (concat heard, s'))"
  proof (cases "isModelLoaded s")
    case False
    then show ?thesis
      by (simp add: generate_def generateStream_not_loaded)
  next
    case True
    then obtain m ctx where m: "m_model s = Some m" and c: "m_context s = Some ctx"
      by (auto simp: isModelLoaded_def)
    show ?thesis
      unfolding generate_def generateStream_loaded [OF m c] Let_def loop
      by (simp split: sum.split prod.split)
  qed
next
  have sl: "stub_loop (\<lambda>token result. (result @ token, False)) ws [] s' =
      map_prod concat id (stub_loop record_token ws [] s')" for ws s'
    using stub_loop_simulation
            [of "\<lambda>token result. (result @ token, False)" concat record_token ws "[]" s']
    by (simp add: record_token_def)
  show "generate_stub prompt config s =
     (case generateStream_stub prompt record_token config [] s of
        (heard, s') \<Rightarrow> (concat heard, s'))"
    by (simp add: generate_stub_def generateStream_stub_def isModelLoaded_stub_def Let_def sl
          split: prod.split)
qed

subsection \<open>Successive generations\<close>

lemma demo_second_eq:
  "demo_second =
     \<lparr>m_model = Some (), m_context = Some (64, 6), m_sampler = Some (demo_chain, 3),
      m_currentConfig = demo_config, m_lastError = [], m_isGenerating = False,
      m_shouldCancel = False, released = []\<rparr>"
  by (simp add: demo_second_def demo_loaded_eq)

lemma demo_first_generation:
  "generate demo_engine ''hi'' None demo_loaded = Inr (''ABC'', demo_second)"
  unfolding demo_loaded_eq demo_second_eq by code_simp

lemma demo_second_generation:
  "generate demo_engine ''hi'' None demo_second =
     Inr (''DEF'', demo_second\<lparr>m_context := Some (64, 12), m_sampler := Some (demo_chain, 6)\<rparr>)"
  unfolding demo_second_eq by code_simp

lemma demo_second_generation_override:
  "generate demo_engine ''hi'' (Some demo_config) demo_second =
     Inr (''ABC'', demo_second\<lparr>m_context := Some (64, 12), m_sampler := Some (demo_chain, 3),
                               released := [llama_sampler_free (demo_chain, 3)]\<rparr>)"
  unfolding demo_second_eq by code_simp

lemma cache_engine_loaded:
  "loadModel cache_engine ''model.gguf'' demo_config demo_new = (True, demo_loaded)"
  unfolding demo_loaded_eq by code_simp

lemma demo_second_override_eq:
  "demo_second_override =
     \<lparr>m_model = Some (), m_context = Some (64, 6), m_sampler = Some (demo_chain, 3),
      m_currentConfig = demo_config, m_lastError = [], m_isGenerating = False,
      m_shouldCancel = False, released = [llama_sampler_free (demo_chain, 0)]\<rparr>"
  by (simp add: demo_second_override_def demo_second_eq)

lemma cache_first_generation:
  "generate cache_engine ''hi'' (Some demo_config) demo_loaded = Inr (''DFH'', demo_second_override)"
  unfolding demo_loaded_eq demo_second_override_eq by code_simp

lemma cache_second_generation:
  "generate cache_engine ''hi'' (Some demo_config) demo_second_override =
     Inr (''JLN'', demo_second_override
            \<lparr>m_context := Some (64, 12),
              released := [llama_sampler_free (demo_chain, 0), llama_sampler_free (demo_chain, 3)]\<rparr>)"
  unfolding demo_second_override_eq by code_simp

text \<open>
  Claim C1 fails on the code. \<^verbatim>\<open>generateStream\<close> rebuilds the sampler chain, and so
  reseeds it, only when the call has a configuration of its own, and it never clears the
  KV cache. With seed 0, the prompt \<^verbatim>\<open>hi\<close> and the example engine, the first of two
  calls without an override returns \<^verbatim>\<open>ABC\<close> and the second \<^verbatim>\<open>DEF\<close>: the second samples
  from the chain as the first left it. A second call that passes the same configuration
  as an override returns \<^verbatim>\<open>ABC\<close> again, because the chain is rebuilt; but with an engine
  whose sampling depends on the cache, two calls with that override return \<^verbatim>\<open>DFH\<close> and
  \<^verbatim>\<open>JLN\<close>.
\<close>

theorem successive_generations_differ:
  "seed (m_currentConfig demo_loaded) = 0
   \<and> generate demo_engine ''hi'' None demo_loaded = Inr (''ABC'', demo_second)
   \<and> m_currentConfig demo_second = m_currentConfig demo_loaded
   \<and> generate demo_engine ''hi'' None demo_second =
       Inr (''DEF'', demo_second\<lparr>m_context := Some (64, 12), m_sampler := Some (demo_chain, 6)\<rparr>)
   \<and> generate demo_engine ''hi'' (Some demo_config) demo_second =
       Inr (''ABC'', demo_second\<lparr>m_context := Some (64, 12), m_sampler := Some (demo_chain, 3),
                                 released := [llama_sampler_free (demo_chain, 3)]\<rparr>)
   \<and> loadModel cache_engine ''model.gguf'' demo_config demo_new = (True, demo_loaded)
   \<and> generate cache_engine ''hi'' (Some demo_config) demo_loaded =
       Inr (''DFH'', demo_second_override)
   \<and> generate cache_engine ''hi'' (Some demo_config) demo_second_override =
       Inr (''JLN'', demo_second_override
              \<lparr>m_context := Some (64, 12),
                released := [llama_sampler_free (demo_chain, 0), llama_sampler_free (demo_chain, 3)]\<rparr>)"
  by (simp add: demo_first_generation demo_second_generation demo_second_generation_override
        cache_engine_loaded cache_first_generation cache_second_generation)
     (simp add: demo_second_eq demo_loaded_eq demo_config_def)

subsection \<open>The tokenizer adapter\<close>

lemma length_resize: "length (resize xs n) = n"
  by (simp add: resize_def)

lemma resize_store_written:
  assumes "length w = n" and "n \<le> length buf"
  shows "resize (store buf w) n = w"
  using assms by (simp add: resize_def store_def)

text \<open>
  Claim C9, for the texts and results whose sizes fit an \<^verbatim>\<open>int\<close>. Let the size of the
  first buffer, \<open>length text div 4 + 16\<close>, be below \<open>2^31\<close>; let \<open>(n1, w1)\<close> be what the
  engine's tokenizer returns for a buffer of that many ids, with \<open>n1\<close> above
  \<^verbatim>\<open>INT32_MIN\<close>, and \<open>(n2, w2)\<close> what it returns for a buffer of \<open>- n1\<close> ids.
  \<^verbatim>\<open>tokenize\<close> makes the first call. If \<open>n1\<close> is not negative it returns the first
  \<open>n1\<close> ids of the buffer. Otherwise it resizes the buffer to \<open>- n1\<close> and makes the second
  call, and no third: if \<open>n2\<close> is negative it returns the empty sequence, otherwise the
  first \<open>n2\<close> ids of the buffer. The result has exactly the reported number of ids, and
  they are the ids the engine wrote when the engine wrote as many as it reports and no more
  than the buffer holds.
\<close>

theorem tokenize_retries_once:
  assumes "length text div 4 + 16 < 2 ^ 31"
      and "llama_tokenize e vocab text (to_int32 (length text))
             (int (length text div 4 + 16)) addBos True = (n1, w1)"
      and "- (2 ^ 31) < n1"
      and "llama_tokenize e vocab text (to_int32 (length text)) (- n1) addBos True = (n2, w2)"
  shows "tokenize e vocab text addBos =
           Inr (if 0 \<le> n1 then resize (store (replicate (length text div 4 + 16) 0) w1) (nat n1)
                else if n2 < 0 then []
                else resize (store (resize (store (replicate (length text div 4 + 16) 0) w1)
                                      (nat (- n1))) w2) (nat n2))
         \<and> (case tokenize e vocab text addBos of
               Inl f \<Rightarrow> False
             | Inr toks \<Rightarrow> length toks = nat (if 0 \<le> n1 then n1 else n2))
         \<and> (0 \<le> n1 \<and> length w1 = nat n1 \<and> nat n1 \<le> length text div 4 + 16
              \<longrightarrow> tokenize e vocab text addBos = Inr w1)
         \<and> (n1 < 0 \<and> 0 \<le> n2 \<and> length w2 = nat n2 \<and> n2 \<le> - n1
              \<longrightarrow> tokenize e vocab text addBos = Inr w2)"
proof -
  let ?buf = "replicate (length text div 4 + 16) (0 :: llama_token)"
  have est: "to_int32 (length text div 4 + 16) = int (length text div 4 + 16)"
    using assms(1) by (rule to_int32_small)
  have cap: "nat (int (length text div 4) + 16) = length text div 4 + 16"
    by linarith
  have eq: "tokenize e vocab text addBos =
           Inr (if 0 \<le> n1 then resize (store ?buf w1) (nat n1)
                else if n2 < 0 then []
                else resize (store (resize (store ?buf w1) (nat (- n1))) w2) (nat n2))"
  proof (cases "0 \<le> n1")
    case True
    then show ?thesis
      using assms(2) est by (simp add: tokenize_def Let_def cap)
  next
    case False
    then have "nat (- n1) < 2 ^ 31"
      using assms(3) by simp
    then have "to_int32 (nat (- n1)) = int (nat (- n1))"
      by (rule to_int32_small)
    then have retry: "to_int32 (nat (- n1)) = - n1"
      using False by simp
    have small: "\<not> 2147483647 < - n1"
      using assms(3) by simp
    show ?thesis
      using False assms(2,4) est small
      by (simp add: tokenize_def Let_def cap length_resize retry)
  qed
  have len: "(case tokenize e vocab text addBos of
               Inl f \<Rightarrow> False
             | Inr toks \<Rightarrow> length toks = nat (if 0 \<le> n1 then n1 else n2))"
    by (simp add: eq length_resize)
  have first: "tokenize e vocab text addBos = Inr w1"
    if "0 \<le> n1" and "length w1 = nat n1" and "nat n1 \<le> length text div 4 + 16"
    using that by (simp add: eq resize_store_written)
  have retry: "tokenize e vocab text addBos = Inr w2"
    if "n1 < 0" and "0 \<le> n2" and "length w2 = nat n2" and "n2 \<le> - n1"
  proof -
    have "nat n2 \<le> length (resize (store ?buf w1) (nat (- n1)))"
      using that by (simp add: length_resize)
    then show ?thesis
      using that by (simp add: eq resize_store_written)
  qed
  show ?thesis
    using eq len first retry by blast
qed

text \<open>
  A prompt that fits the first buffer, one that needs the retry (31 ids, first buffer 23),
  and a tokenizer that fails twice.
\<close>

theorem tokenize_retries_once_witness:
  "length ''hello'' div 4 + 16 = 17
   \<and> llama_tokenize demo_engine () ''hello'' 5 17 True True = (6, [1, 104, 101, 108, 108, 111])
   \<and> tokenize demo_engine () ''hello'' True = Inr [1, 104, 101, 108, 108, 111]
   \<and> length ''the quick brown fox jumps over'' div 4 + 16 = 23
   \<and> llama_tokenize demo_engine () ''the quick brown fox jumps over'' 30 23 True True = (- 31, [])
   \<and> llama_tokenize demo_engine () ''the quick brown fox jumps over'' 30 31 True True =
       (31, [1, 116, 104, 101, 32, 113, 117, 105, 99, 107, 32, 98, 114, 111, 119,
             110, 32, 102, 111, 120, 32, 106, 117, 109, 112, 115, 32, 111, 118,
             101, 114])
   \<and> tokenize demo_engine () ''the quick brown fox jumps over'' True =
       Inr [1, 116, 104, 101, 32, 113, 117, 105, 99, 107, 32, 98, 114, 111, 119,
            110, 32, 102, 111, 120, 32, 106, 117, 109, 112, 115, 32, 111, 118,
            101, 114]
   \<and> llama_tokenize deaf_engine () ''hello'' 5 17 True True = (- 1, [])
   \<and> llama_tokenize deaf_engine () ''hello'' 5 1 True True = (- 1, [])
   \<and> tokenize deaf_engine () ''hello'' True = Inr []"
proof -
  have a0: "length ''hello'' div 4 + 16 < (2 :: nat) ^ 31"
    and a3: "- (2 ^ 31) < (6 :: int)"
    by simp_all
  have a1: "llama_tokenize demo_engine () ''hello'' (to_int32 (length ''hello''))
              (int (length ''hello'' div 4 + 16)) True True = (6, [1, 104, 101, 108, 108, 111])"
    by (simp add: demo_engine_def to_int32_small)
  have a2: "llama_tokenize demo_engine () ''hello'' (to_int32 (length ''hello'')) (- 6) True True =
              (- 6, [])"
    by (simp add: demo_engine_def to_int32_small)
  have b0: "length ''the quick brown fox jumps over'' div 4 + 16 < (2 :: nat) ^ 31"
    and b3: "- (2 ^ 31) < (- 31 :: int)"
    by simp_all
  have b1: "llama_tokenize demo_engine () ''the quick brown fox jumps over''
              (to_int32 (length ''the quick brown fox jumps over''))
              (int (length ''the quick brown fox jumps over'' div 4 + 16)) True True = (- 31, [])"
    by (simp add: demo_engine_def to_int32_small)
  have b2: "llama_tokenize demo_engine () ''the quick brown fox jumps over''
              (to_int32 (length ''the quick brown fox jumps over'')) (- (- 31)) True True =
       (31, [1, 116, 104, 101, 32, 113, 117, 105, 99, 107, 32, 98, 114, 111, 119,
             110, 32, 102, 111, 120, 32, 106, 117, 109, 112, 115, 32, 111, 118,
             101, 114])"
    by (simp add: demo_engine_def to_int32_small)
  have c3: "- (2 ^ 31) < (- 1 :: int)"
    by simp
  have c1: "llama_tokenize deaf_engine () ''hello'' (to_int32 (length ''hello''))
              (int (length ''hello'' div 4 + 16)) True True = (- 1, [])"
    by (simp add: deaf_engine_def)
  have c2: "llama_tokenize deaf_engine () ''hello'' (to_int32 (length ''hello'')) (- (- 1)) True True =
              (- 1, [])"
    by (simp add: deaf_engine_def)
  have d: "llama_tokenize demo_engine () ''hello'' 5 17 True True = (6, [1, 104, 101, 108, 108, 111])"
    "llama_tokenize demo_engine () ''the quick brown fox jumps over'' 30 23 True True = (- 31, [])"
    "llama_tokenize demo_engine () ''the quick brown fox jumps over'' 30 31 True True =
       (31, [1, 116, 104, 101, 32, 113, 117, 105, 99, 107, 32, 98, 114, 111, 119,
             110, 32, 102, 111, 120, 32, 106, 117, 109, 112, 115, 32, 111, 118,
             101, 114])"
    "llama_tokenize deaf_engine () ''hello'' 5 17 True True = (- 1, [])"
    "llama_tokenize deaf_engine () ''hello'' 5 1 True True = (- 1, [])"
    by (simp_all add: demo_engine_def deaf_engine_def)
  have "tokenize demo_engine () ''hello'' True = Inr [1, 104, 101, 108, 108, 111]"
    using tokenize_retries_once [OF a0 a1 a3 a2] by (simp add: resize_def store_def)
  moreover have "tokenize demo_engine () ''the quick brown fox jumps over'' True =
       Inr [1, 116, 104, 101, 32, 113, 117, 105, 99, 107, 32, 98, 114, 111, 119,
            110, 32, 102, 111, 120, 32, 106, 117, 109, 112, 115, 32, 111, 118,
            101, 114]"
    using tokenize_retries_once [OF b0 b1 b3 b2] by (simp add: resize_def store_def)
  moreover have "tokenize deaf_engine () ''hello'' True = Inr []"
    using tokenize_retries_once [OF a0 c1 c3 c2] by simp
  ultimately show ?thesis
    using d by simp
qed

text \<open>
  Claim C9 fails where a size does not fit an \<^verbatim>\<open>int\<close>. For a text of \<open>2^33\<close> bytes the
  size of the first buffer, \<open>2^31 + 16\<close>, converts to a negative \<^verbatim>\<open>int\<close>, and the
  constructor of the buffer throws before the tokenizer is called. When the tokenizer's
  first result is \<^verbatim>\<open>INT32_MIN\<close>, the required size \<^verbatim>\<open>-n_tokens\<close> overflows; the buffer is
  not resized to it and no retry follows.
\<close>

theorem tokenize_counterexample:
  "length (replicate (2 ^ 33) CHR ''a'') = 2 ^ 33
   \<and> to_int32 (length (replicate (2 ^ 33) CHR ''a'') div 4 + 16) = - 2147483632
   \<and> tokenize demo_engine () (replicate (2 ^ 33) CHR ''a'') True = Inl LengthError
   \<and> llama_tokenize overflow_engine () ''hello'' 5 17 True True = (- 2147483648, [])
   \<and> tokenize overflow_engine () ''hello'' True = Inl SignedOverflow"
proof -
  have n: "to_int32 (length (replicate (2 ^ 33) CHR ''a'') div 4 + 16) = - 2147483632"
    by (simp add: to_int32_def)
  have big: "tokenize demo_engine () (replicate (2 ^ 33) CHR ''a'') True = Inl LengthError"
    unfolding tokenize_def n by (simp add: Let_def)
  have r: "llama_tokenize overflow_engine () ''hello'' 5 17 True True = (- 2147483648, [])"
    by (simp add: overflow_engine_def)
  have small: "tokenize overflow_engine () ''hello'' True = Inl SignedOverflow"
    by code_simp
  show ?thesis
    using n big r small by simp
qed

subsection \<open>The error slot\<close>















end
